theory Spec2Isabelle
  imports Complex_Main
begin

section \<open>FAISS viewer: the index connection and query manager\<close>

text \<open>
  A shallow embedding of the class \<open>FaissDataProvider\<close> of \<open>src/extension.ts\<close>:
  \<open>connectToIndex\<close>, \<open>searchVectors\<close>, \<open>getAllMemories\<close>, \<open>refresh\<close> and
  \<open>disconnect\<close>, together with the \<open>searchVectors\<close> branch of the webview message
  handler that pairs the returned memories with their distances.

  The provider's fields, the file system, the persisted \<open>faissDataPath\<close> key, the
  \<open>faissViewConnected\<close> context key, the change event, the console and the error
  popups are one explicit state record. Calls into Node and into the index engine
  that can throw (reading a file, \<open>JSON.parse\<close>, \<open>Buffer.from\<close>, writing and
  unlinking a file, \<open>Index.read\<close>, \<open>Index.search\<close>) take their outcome from an
  environment record, so every outcome is covered. The editor calls
  (\<open>globalState.update\<close>, \<open>executeCommand\<close>, \<open>EventEmitter.fire\<close>,
  \<open>showErrorMessage\<close>) and the console are effects that always complete.
  Each operation is run to completion before the next one starts.
\<close>

subsection \<open>JavaScript values\<close>

text \<open>
  What \<open>JSON.parse\<close> can return, and \<open>undefined\<close> for a property that is not there.
  An object is its list of members in document order; a repeated key takes the
  value of its last occurrence.
\<close>

datatype jsval =
    JUndefined
  | JNull
  | JBool bool
  | JNum real
  | JStr string
  | JArr "jsval list"
  | JObj "(string \<times> jsval) list"

text \<open>The errors that can be thrown while connecting or searching.\<close>

datatype error =
    FileNotFound string  \<comment> \<open>\<open>new Error(`File not found: ${filePath}`)\<close>\<close>
  | NoIndexData  \<comment> \<open>\<open>new Error('No index data found in the JSON file')\<close>\<close>
  | InvalidTempFile  \<comment> \<open>\<open>new Error('Failed to create valid temporary index file')\<close>\<close>
  | ReadFailure  \<comment> \<open>\<open>fs.readFileSync\<close> throws\<close>
  | SyntaxError  \<comment> \<open>\<open>JSON.parse\<close> throws\<close>
  | TypeError  \<comment> \<open>a property of \<open>null\<close> or \<open>undefined\<close> is read, or \<open>Buffer.from\<close> refuses its argument\<close>
  | WriteFailure  \<comment> \<open>\<open>fs.writeFileSync\<close> throws\<close>
  | UnlinkFailure  \<comment> \<open>\<open>fs.unlinkSync\<close> throws\<close>
  | EngineError string  \<comment> \<open>the index engine rejects\<close>

text \<open>JavaScript truthiness, as \<open>!data.index\<close> and \<open>if (this.indexPath)\<close> test it.\<close>

fun truthy :: "jsval \<Rightarrow> bool" where
  "truthy JUndefined = False"
| "truthy JNull = False"
| "truthy (JBool b) = b"
| "truthy (JNum n) = (n \<noteq> 0)"
| "truthy (JStr s) = (s \<noteq> [])"
| "truthy (JArr xs) = True"
| "truthy (JObj kvs) = True"

text \<open>
  Reading a named property \<open>v.k\<close>: \<open>None\<close> is the \<open>TypeError\<close> thrown on \<open>null\<close> and
  \<open>undefined\<close>. Only own members are looked up: the two names the source reads,
  \<open>memories\<close> and \<open>index\<close>, are on no prototype of a parsed JSON value.
\<close>

fun js_get :: "jsval \<Rightarrow> string \<Rightarrow> jsval option" where
  "js_get JUndefined k = None"
| "js_get JNull k = None"
| "js_get (JObj kvs) k =
     Some (case map_of (rev kvs) k of None \<Rightarrow> JUndefined | Some v \<Rightarrow> v)"
| "js_get v k = Some JUndefined"

text \<open>
  Decimal text of an integral number, as template strings and property keys render
  it below \<open>10\<^sup>2\<^sup>1\<close> in magnitude; from there on JavaScript writes a number in
  exponent form, which is not modelled.
\<close>

fun show_nat :: "nat \<Rightarrow> string" where
  "show_nat n =
     (if n < 10 then [''0123456789'' ! n]
      else show_nat (n div 10) @ [''0123456789'' ! (n mod 10)])"

declare show_nat.simps [simp del]

definition show_int :: "int \<Rightarrow> string" where
  "show_int i = (if i < 0 then CHR ''-'' # show_nat (nat (- i)) else show_nat (nat i))"

text \<open>
  Reading an indexed element \<open>v[idx]\<close> for an integral number \<open>idx\<close>: an array or a
  string answers \<open>undefined\<close> outside its bounds (a string, its one-character
  string inside them), an object looks the decimal key up, \<open>null\<close> and
  \<open>undefined\<close> throw a \<open>TypeError\<close> (\<open>None\<close>).
\<close>

fun js_index :: "jsval \<Rightarrow> int \<Rightarrow> jsval option" where
  "js_index JUndefined i = None"
| "js_index JNull i = None"
| "js_index (JArr xs) i =
     Some (if 0 \<le> i \<and> i < int (length xs) then xs ! nat i else JUndefined)"
| "js_index (JStr s) i =
     Some (if 0 \<le> i \<and> i < int (length s) then JStr [s ! nat i] else JUndefined)"
| "js_index (JObj kvs) i = js_get (JObj kvs) (show_int i)"
| "js_index v i = Some JUndefined"

subsection \<open>The index engine and the environment\<close>

type_synonym handle = nat

text \<open>\<open>SearchResult\<close> of \<open>src/types.ts\<close>; the positions are integral numbers.\<close>

record SearchResult =
  indices :: "int list"
  distances :: "real list"

text \<open>
  \<open>fs.writeFileSync\<close> either writes the whole buffer or throws; when it throws, the
  path is left absent or with some content.
\<close>

datatype write_outcome = Written | WriteThrows "string option"

record env =
  date_now :: nat  \<comment> \<open>\<open>Date.now()\<close>\<close>
  os_tmpdir :: string  \<comment> \<open>\<open>os.tmpdir()\<close>\<close>
  read_fails :: "string \<Rightarrow> bool"  \<comment> \<open>\<open>fs.readFileSync\<close> throws on this existing path\<close>
  json_parse :: "string \<Rightarrow> jsval option"  \<comment> \<open>\<open>JSON.parse\<close>; \<open>None\<close> is its \<open>SyntaxError\<close>\<close>
  buffer_from :: "jsval \<Rightarrow> string option"  \<comment> \<open>\<open>Buffer.from(v, 'base64')\<close>; \<open>None\<close> is its \<open>TypeError\<close>\<close>
  write_file :: "string \<Rightarrow> string \<Rightarrow> write_outcome"  \<comment> \<open>\<open>fs.writeFileSync\<close>\<close>
  unlink_fails :: "string \<Rightarrow> bool"  \<comment> \<open>\<open>fs.unlinkSync\<close> throws on this path\<close>
  index_read :: "string \<Rightarrow> error + handle"  \<comment> \<open>\<open>Index.read\<close> on a file with this content\<close>
  index_search :: "handle \<Rightarrow> real list \<Rightarrow> nat \<Rightarrow> error + SearchResult"  \<comment> \<open>\<open>Index.search\<close>\<close>

subsection \<open>The state\<close>

datatype console_entry =
    ConsoleLog string
  | ConsoleError string error
  | ConsoleWarn string error

record state =
  faissIndex :: "handle option"  \<comment> \<open>\<open>this.faissIndex\<close>\<close>
  indexPath :: "string option"  \<comment> \<open>\<open>this.indexPath\<close>\<close>
  memories :: jsval  \<comment> \<open>\<open>this.memories\<close>\<close>
  files :: "string \<rightharpoonup> string"  \<comment> \<open>the file system: path to content\<close>
  faissDataPath :: "string option"  \<comment> \<open>\<open>globalState\<close> key \<open>faissDataPath\<close>\<close>
  faissViewConnected :: bool  \<comment> \<open>context key \<open>faissViewConnected\<close>\<close>
  fired :: nat  \<comment> \<open>how often \<open>_onDidChangeTreeData.fire()\<close> ran\<close>
  console :: "console_entry list"
  errorMessages :: "(string \<times> error) list"  \<comment> \<open>\<open>showErrorMessage\<close> popups\<close>

definition console_log :: "string \<Rightarrow> state \<Rightarrow> state" where
  "console_log msg s = s\<lparr>console := console s @ [ConsoleLog msg]\<rparr>"

definition console_error :: "string \<Rightarrow> error \<Rightarrow> state \<Rightarrow> state" where
  "console_error msg e s = s\<lparr>console := console s @ [ConsoleError msg e]\<rparr>"

definition console_warn :: "string \<Rightarrow> error \<Rightarrow> state \<Rightarrow> state" where
  "console_warn msg e s = s\<lparr>console := console s @ [ConsoleWarn msg e]\<rparr>"

definition showErrorMessage :: "string \<Rightarrow> error \<Rightarrow> state \<Rightarrow> state" where
  "showErrorMessage msg e s = s\<lparr>errorMessages := errorMessages s @ [(msg, e)]\<rparr>"

definition fire :: "state \<Rightarrow> state" where
  "fire s = s\<lparr>fired := Suc (fired s)\<rparr>"

subsection \<open>searchVectors\<close>

text \<open>The object \<open>searchVectors\<close> resolves to; \<open>None\<close> is its \<open>null\<close>.\<close>

record search_reply =
  reply_indices :: "int list"
  reply_distances :: "real list"
  reply_memories :: "jsval list"

text \<open>
  \<open>Array.from(results.indices).map((idx) => this.memories[idx])\<close>: the callback runs
  once per position, so nothing is read (and nothing thrown) for no positions.
\<close>

fun lookup_memories :: "jsval \<Rightarrow> int list \<Rightarrow> jsval list option" where
  "lookup_memories ms [] = Some []"
| "lookup_memories ms (idx # idxs) =
     (case js_index ms idx of
        None \<Rightarrow> None
      | Some m \<Rightarrow>
          (case lookup_memories ms idxs of None \<Rightarrow> None | Some rest \<Rightarrow> Some (m # rest)))"

definition search_failed :: "error \<Rightarrow> state \<Rightarrow> state" where
  "search_failed e s =
     showErrorMessage ''Search failed: '' e (console_error ''Search failed:'' e s)"

definition searchVectors :: "env \<Rightarrow> real list \<Rightarrow> state \<Rightarrow> search_reply option \<times> state" where
  "searchVectors env vector s =
     (case faissIndex s of
        None \<Rightarrow> (None, s)
      | Some h \<Rightarrow>
          (case index_search env h vector 5 of
             Inl e \<Rightarrow> (None, search_failed e s)
           | Inr results \<Rightarrow>
               (case lookup_memories (memories s) (indices results) of
                  None \<Rightarrow> (None, search_failed TypeError s)
                | Some ms \<Rightarrow>
                    (Some \<lparr>reply_indices = indices results,
                           reply_distances = distances results,
                           reply_memories = ms\<rparr>, s))))"

text \<open>
  The webview handler's \<open>searchVectors\<close> case: every memory is paired with
  \<open>results.distances[i]\<close>, which is \<open>undefined\<close> (\<open>None\<close>) past the end.
\<close>

definition nth_opt :: "'a list \<Rightarrow> nat \<Rightarrow> 'a option" where
  "nth_opt xs i = (if i < length xs then Some (xs ! i) else None)"

definition searchResults :: "search_reply \<Rightarrow> (jsval \<times> real option) list" where
  "searchResults results =
     map (\<lambda>(memory, i). (memory, nth_opt (reply_distances results) i))
       (zip (reply_memories results) [0 ..< length (reply_memories results)])"

subsection \<open>connectToIndex\<close>

text \<open>
  \<open>path.join\<close> on a POSIX system: the non-empty arguments are joined with a
  separator and the result is normalised. Normalising splits the path at the
  separators, drops the empty and the \<open>.\<close> segments, lets a \<open>..\<close> segment remove the
  segment before it (above the start of a relative path it is kept, above the root
  it is dropped), and keeps a leading and a trailing separator.
\<close>

fun split_path :: "string \<Rightarrow> string list" where
  "split_path [] = [[]]"
| "split_path (c # cs) =
     (if c = CHR ''/'' then [] # split_path cs
      else (case split_path cs of [] \<Rightarrow> [[c]] | seg # segs \<Rightarrow> (c # seg) # segs))"

fun normalize_segments :: "bool \<Rightarrow> string list \<Rightarrow> string list \<Rightarrow> string list" where
  "normalize_segments allowAboveRoot res [] = res"
| "normalize_segments allowAboveRoot res (seg # segs) =
     (if seg = [] \<or> seg = ''.'' then normalize_segments allowAboveRoot res segs
      else if seg = ''..'' then
        (if res \<noteq> [] \<and> last res \<noteq> ''..''
         then normalize_segments allowAboveRoot (butlast res) segs
         else if allowAboveRoot
         then normalize_segments allowAboveRoot (res @ [''..'']) segs
         else normalize_segments allowAboveRoot res segs)
      else normalize_segments allowAboveRoot (res @ [seg]) segs)"

fun join_segments :: "string list \<Rightarrow> string" where
  "join_segments [] = []"
| "join_segments [seg] = seg"
| "join_segments (seg # segs) = seg @ ''/'' @ join_segments segs"

definition path_normalize :: "string \<Rightarrow> string" where
  "path_normalize p =
     (if p = [] then ''.''
      else
        (let isAbsolute = (hd p = CHR ''/'');
             trailingSeparator = (last p = CHR ''/'');
             body = join_segments (normalize_segments (\<not> isAbsolute) [] (split_path p))
         in if body = [] then
              (if isAbsolute then ''/'' else if trailingSeparator then ''./'' else ''.'')
            else (if isAbsolute then ''/'' else []) @ body @
                 (if trailingSeparator then ''/'' else [])))"

definition path_join :: "string \<Rightarrow> string \<Rightarrow> string" where
  "path_join a b =
     (let joined = (if a = [] then b else if b = [] then a else a @ ''/'' @ b)
      in if joined = [] then ''.'' else path_normalize joined)"

text \<open>\<open>path.join(os.tmpdir(), `temp_faiss_${Date.now()}.index`)\<close>.\<close>

definition tempPath_of :: "env \<Rightarrow> string" where
  "tempPath_of env =
     path_join (os_tmpdir env) (''temp_faiss_'' @ show_nat (date_now env) @ ''.index'')"

text \<open>
  The end of the \<open>try\<close> block, from \<open>Index.read\<close> on; \<open>staged\<close> is the content of
  the temporary file. The result is the error thrown, if any, and the state.
\<close>

definition connect_open :: "env \<Rightarrow> string \<Rightarrow> string \<Rightarrow> state \<Rightarrow> error option \<times> state" where
  "connect_open env filePath staged s =
     (let s1 = console_log ''Attempting to read FAISS index from temporary file'' s in
      case index_read env staged of
        Inl e \<Rightarrow> (Some e, s1)
      | Inr h \<Rightarrow>
          (let s2 = console_log ''Successfully connected to FAISS index''
                      (s1\<lparr>faissIndex := Some h\<rparr>);
               s3 = s2\<lparr>faissDataPath := Some filePath\<rparr>;
               s4 = s3\<lparr>faissViewConnected := True\<rparr>
           in (None, fire s4)))"

text \<open>
  The middle of the \<open>try\<close> block, once \<open>tempPath\<close> is assigned: the test of
  \<open>data.index\<close>, the decoding, the write and its verification.
\<close>

definition connect_stage :: "env \<Rightarrow> string \<Rightarrow> jsval \<Rightarrow> state \<Rightarrow> error option \<times> state" where
  "connect_stage env filePath data s =
     (let tempPath = tempPath_of env;
          s1 = console_log (''Creating temporary file at: '' @ tempPath) s in
      case js_get data ''index'' of
        None \<Rightarrow> (Some TypeError, s1)
      | Some ix \<Rightarrow>
          if \<not> truthy ix then (Some NoIndexData, s1)
          else
            (case buffer_from env ix of
               None \<Rightarrow> (Some TypeError, s1)
             | Some indexBuffer \<Rightarrow>
                 (case write_file env tempPath indexBuffer of
                    WriteThrows left \<Rightarrow>
                      (Some WriteFailure, s1\<lparr>files := (files s1)(tempPath := left)\<rparr>)
                  | Written \<Rightarrow>
                      (let s2 = console_log ''Successfully wrote index buffer to temporary file''
                                  (s1\<lparr>files := (files s1)(tempPath \<mapsto> indexBuffer)\<rparr>) in
                       case files s2 tempPath of
                         None \<Rightarrow> (Some InvalidTempFile, s2)
                       | Some staged \<Rightarrow>
                           if length staged = 0 then (Some InvalidTempFile, s2)
                           else connect_open env filePath staged s2))))"

text \<open>
  The \<open>try\<close> block. The result is the error thrown, if any, the local \<open>tempPath\<close>
  (\<open>None\<close> is its initial \<open>null\<close>) and the state.
\<close>

definition connect_try :: "env \<Rightarrow> string \<Rightarrow> state \<Rightarrow> error option \<times> string option \<times> state" where
  "connect_try env filePath s =
     (let s1 = (console_log (''Attempting to connect to FAISS index at: '' @ filePath) s)
                 \<lparr>indexPath := Some filePath\<rparr> in
      case files s1 filePath of
        None \<Rightarrow> (Some (FileNotFound filePath), None, s1)
      | Some text \<Rightarrow>
          if read_fails env filePath then (Some ReadFailure, None, s1)
          else
            (case json_parse env text of
               None \<Rightarrow> (Some SyntaxError, None, s1)
             | Some data \<Rightarrow>
                 (case js_get data ''memories'' of
                    None \<Rightarrow> (Some TypeError, None, s1)
                  | Some ms \<Rightarrow>
                      (case connect_stage env filePath data (s1\<lparr>memories := ms\<rparr>) of
                         (thrown, s2) \<Rightarrow> (thrown, Some (tempPath_of env), s2)))))"

text \<open>The \<open>catch\<close> block, before it rethrows.\<close>

definition connect_catch :: "error \<Rightarrow> state \<Rightarrow> state" where
  "connect_catch e s =
     (let s1 = console_error ''Failed to connect to FAISS index:'' e s;
          s2 = showErrorMessage ''Failed to connect to FAISS index: '' e s1;
          s3 = s2\<lparr>faissDataPath := None\<rparr>;
          s4 = s3\<lparr>indexPath := None, faissIndex := None, memories := JArr []\<rparr>;
          s5 = s4\<lparr>faissViewConnected := False\<rparr>
      in fire s5)"

text \<open>The \<open>finally\<close> block.\<close>

definition connect_finally :: "env \<Rightarrow> string option \<Rightarrow> state \<Rightarrow> state" where
  "connect_finally env tempPath s =
     (case tempPath of
        None \<Rightarrow> s
      | Some tp \<Rightarrow>
          if tp \<noteq> [] \<and> files s tp \<noteq> None then
            (if unlink_fails env tp
             then console_warn ''Failed to clean up temporary file:'' UnlinkFailure s
             else console_log ''Successfully cleaned up temporary file''
                    (s\<lparr>files := (files s)(tp := None)\<rparr>))
          else s)"

text \<open>
  \<open>connectToIndex\<close>: \<open>Inr ()\<close> when the promise resolves, \<open>Inl e\<close> when it rejects
  with \<open>e\<close>.
\<close>

definition connectToIndex :: "env \<Rightarrow> string \<Rightarrow> state \<Rightarrow> (error + unit) \<times> state" where
  "connectToIndex env filePath s =
     (case connect_try env filePath s of
        (None, tempPath, s1) \<Rightarrow> (Inr (), connect_finally env tempPath s1)
      | (Some e, tempPath, s1) \<Rightarrow>
          (Inl e, connect_finally env tempPath (connect_catch e s1)))"

subsection \<open>getAllMemories, refresh, disconnect\<close>

definition getAllMemories :: "state \<Rightarrow> jsval" where
  "getAllMemories s = memories s"

text \<open>
  \<open>refresh\<close> starts \<open>connectToIndex\<close> without awaiting it; here the call runs to its
  end and its outcome is dropped. An empty path is falsy.
\<close>

definition refresh :: "env \<Rightarrow> state \<Rightarrow> state" where
  "refresh env s =
     (case indexPath s of
        None \<Rightarrow> fire s
      | Some p \<Rightarrow> if p \<noteq> [] then snd (connectToIndex env p s) else fire s)"

definition disconnect :: "env \<Rightarrow> state \<Rightarrow> state" where
  "disconnect env s =
     (case faissIndex s of
        None \<Rightarrow> s
      | Some h \<Rightarrow>
          (let s1 = s\<lparr>faissIndex := None, indexPath := None, memories := JArr []\<rparr>;
               s2 = s1\<lparr>faissDataPath := None\<rparr>;
               s3 = s2\<lparr>faissViewConnected := False\<rparr>
           in refresh env s3))"

subsection \<open>A concrete bundle, environment and engine\<close>

definition demo_records :: "jsval list" where
  "demo_records =
     [JObj [(''id'', JStr ''a'')], JObj [(''id'', JStr ''b'')], JObj [(''id'', JStr ''c'')],
      JObj [(''id'', JStr ''d'')], JObj [(''id'', JStr ''e'')], JObj [(''id'', JStr ''f'')]]"

definition demo_parse :: "string \<Rightarrow> jsval option" where
  "demo_parse text =
     (if text = ''bundle'' then
        Some (JObj [(''index'', JStr ''SW5kZXg=''), (''memories'', JArr demo_records)])
      else if text = ''no index'' then Some (JObj [(''memories'', JArr demo_records)])
      else if text = ''no memories'' then Some (JObj [(''index'', JStr ''SW5kZXg='')])
      else if text = ''short bundle'' then
        Some (JObj [(''index'', JStr ''SW5kZXg=''), (''memories'', JArr (take 2 demo_records))])
      else if text = ''bad bundle'' then
        Some (JObj [(''index'', JStr ''QmFk''), (''memories'', JArr demo_records)])
      else if text = ''null'' then Some JNull
      else None)"

definition demo_buffer_from :: "jsval \<Rightarrow> string option" where
  "demo_buffer_from v =
     (case v of
        JStr s \<Rightarrow>
          Some (if s = ''SW5kZXg='' then ''Index'' else if s = ''QmFk'' then ''Bad'' else [])
      | JArr xs \<Rightarrow> Some []
      | _ \<Rightarrow> None)"

text \<open>
  An engine over six rows: asked for \<open>k\<close> neighbours it answers the \<open>k\<close> nearest rows,
  nearest first.
\<close>

definition demo_search :: "handle \<Rightarrow> real list \<Rightarrow> nat \<Rightarrow> error + SearchResult" where
  "demo_search h vector k =
     (if h = 1 then
        Inr \<lparr>indices = take k [2, 0, 1, 5, 4, 3], distances = take k [0, 1, 2, 3, 4, 5]\<rparr>
      else Inl (EngineError ''search failed''))"

definition demo_env :: env where
  "demo_env =
     \<lparr>date_now = 1700000000000,
      os_tmpdir = ''/tmp'',
      read_fails = (\<lambda>p. False),
      json_parse = demo_parse,
      buffer_from = demo_buffer_from,
      write_file = (\<lambda>p b. Written),
      unlink_fails = (\<lambda>p. False),
      index_read = (\<lambda>c. if c = ''Index'' then Inr 1 else Inl (EngineError ''read failed'')),
      index_search = demo_search\<rparr>"

definition demo_files :: "string \<rightharpoonup> string" where
  "demo_files =
     [''/data/bundle.json'' \<mapsto> ''bundle'', ''/data/noindex.json'' \<mapsto> ''no index'',
      ''/data/nomemories.json'' \<mapsto> ''no memories'', ''/data/short.json'' \<mapsto> ''short bundle'',
      ''/data/bad.json'' \<mapsto> ''bad bundle'']"

text \<open>The state at activation, and a connected state.\<close>

definition initial_state :: state where
  "initial_state =
     \<lparr>faissIndex = None, indexPath = None, memories = JArr [], files = demo_files,
      faissDataPath = None, faissViewConnected = False, fired = 0, console = [],
      errorMessages = []\<rparr>"

definition connected_state :: state where
  "connected_state =
     initial_state\<lparr>faissIndex := Some 1, indexPath := Some ''/data/bundle.json'',
       memories := JArr demo_records, faissDataPath := Some ''/data/bundle.json'',
       faissViewConnected := True, fired := 1\<rparr>"

text \<open>
  The state after connecting to a bundle of two records whose index has six rows,
  the state after connecting to a bundle without records, and the state after a
  connect to a path that does not exist.
\<close>

definition nomemories_state :: state where
  "nomemories_state = snd (connectToIndex demo_env ''/data/nomemories.json'' initial_state)"

definition short_state :: state where
  "short_state = snd (connectToIndex demo_env ''/data/short.json'' initial_state)"

definition error_state :: state where
  "error_state = snd (connectToIndex demo_env ''/data/missing.json'' initial_state)"

section \<open>Auxiliary facts\<close>

subsection \<open>The concrete environment\<close>

lemma tempPath_demo: "tempPath_of demo_env = ''/tmp/temp_faiss_1700000000000.index''"
  by (simp add: tempPath_of_def path_join_def path_normalize_def show_nat.simps demo_env_def)

lemma demo_env_simps:
  "read_fails demo_env = (\<lambda>p. False)"
  "json_parse demo_env = demo_parse"
  "buffer_from demo_env = demo_buffer_from"
  "write_file demo_env = (\<lambda>p b. Written)"
  "unlink_fails demo_env = (\<lambda>p. False)"
  "index_read demo_env =
     (\<lambda>c. if c = ''Index'' then Inr 1 else Inl (EngineError ''read failed''))"
  "index_search demo_env = demo_search"
  by (simp_all add: demo_env_def)

lemmas demo_eval =
  connectToIndex_def connect_try_def connect_stage_def connect_open_def connect_catch_def
  connect_finally_def tempPath_demo demo_parse_def demo_buffer_from_def initial_state_def
  demo_files_def console_log_def console_error_def console_warn_def showErrorMessage_def
  fire_def demo_env_simps Let_def

lemma short_state_fields:
  "faissIndex short_state = Some 1"
  "memories short_state = JArr (take 2 demo_records)"
  "errorMessages short_state = []"
  by (simp_all add: short_state_def demo_eval)

lemma nomemories_state_fields:
  "faissIndex nomemories_state = Some 1"
  "memories nomemories_state = JUndefined"
  by (simp_all add: nomemories_state_def demo_eval)

lemma error_state_fields:
  "faissIndex error_state = None"
  "fired error_state = 1"
  "errorMessages error_state =
     [(''Failed to connect to FAISS index: '', FileNotFound ''/data/missing.json'')]"
  by (simp_all add: error_state_def demo_eval)

lemma connected_state_fields:
  "faissIndex connected_state = Some 1"
  "memories connected_state = JArr demo_records"
  "indexPath connected_state = Some ''/data/bundle.json''"
  "faissDataPath connected_state = Some ''/data/bundle.json''"
  "fired connected_state = 1"
  by (simp_all add: connected_state_def initial_state_def)

subsection \<open>Looking memories up\<close>

lemma lookup_memories_JArr:
  "lookup_memories (JArr rs) ps =
     Some (map (\<lambda>p. if 0 \<le> p \<and> p < int (length rs) then rs ! nat p else JUndefined) ps)"
  by (induction ps) simp_all

lemma lookup_memories_defined:
  assumes "ms \<noteq> JUndefined" and "ms \<noteq> JNull"
  shows "\<exists>rs. lookup_memories ms ps = Some rs \<and> length rs = length ps"
proof (induction ps)
  case Nil
  show ?case by simp
next
  case (Cons p ps)
  obtain m where "js_index ms p = Some m"
    using assms by (cases ms) simp_all
  with Cons show ?case by auto
qed

lemma lookup_memories_absent:
  assumes "ms = JUndefined \<or> ms = JNull" and "ps \<noteq> []"
  shows "lookup_memories ms ps = None"
  using assms by (cases ps) auto

lemma searchResults_nth:
  assumes "i < length (reply_memories reply)"
  shows "searchResults reply ! i =
           (reply_memories reply ! i, nth_opt (reply_distances reply) i)"
  using assms by (simp add: searchResults_def)

lemma searchResults_zip:
  assumes "length (reply_memories reply) = length (reply_distances reply)"
  shows "searchResults reply =
           zip (reply_memories reply) (map Some (reply_distances reply))"
proof (rule nth_equalityI)
  show "length (searchResults reply) =
          length (zip (reply_memories reply) (map Some (reply_distances reply)))"
    using assms by (simp add: searchResults_def)
next
  fix i
  assume "i < length (searchResults reply)"
  then have "i < length (reply_memories reply)"
    by (simp add: searchResults_def)
  then show "searchResults reply ! i =
          zip (reply_memories reply) (map Some (reply_distances reply)) ! i"
    using assms by (simp add: searchResults_def nth_opt_def)
qed

subsection \<open>The blocks of connectToIndex\<close>

lemma path_normalize_nonempty: "path_normalize p \<noteq> []"
  by (simp add: path_normalize_def Let_def)

lemma tempPath_of_nonempty: "tempPath_of env \<noteq> []"
  by (simp add: tempPath_of_def path_join_def path_normalize_nonempty Let_def)

lemma connect_open_frame:
  assumes "connect_open env filePath staged s = (thrown, s')"
  shows "files s' = files s"
    and "errorMessages s' = errorMessages s"
    and "memories s' = memories s"
    and "thrown \<noteq> None \<Longrightarrow> fired s' = fired s"
  using assms
  by (auto simp: connect_open_def console_log_def fire_def Let_def split: sum.splits)

lemma connect_stage_frame:
  assumes "connect_stage env filePath data s = (thrown, s')"
  shows "p \<noteq> tempPath_of env \<Longrightarrow> files s' p = files s p"
    and "errorMessages s' = errorMessages s"
    and "memories s' = memories s"
    and "thrown \<noteq> None \<Longrightarrow> fired s' = fired s"
  using assms
  by (auto simp: connect_stage_def console_log_def Let_def
      split: option.splits if_splits write_outcome.splits
      dest: connect_open_frame)

lemma connect_try_frame:
  assumes "connect_try env filePath s = (thrown, tp, s')"
  shows "p \<noteq> tempPath_of env \<Longrightarrow> files s' p = files s p"
    and "errorMessages s' = errorMessages s"
    and "thrown \<noteq> None \<Longrightarrow> fired s' = fired s"
    and "tp = None \<Longrightarrow> files s' = files s"
    and "tp = None \<or> tp = Some (tempPath_of env)"
  using assms
  by (auto simp: connect_try_def console_log_def Let_def
      split: option.splits if_splits prod.splits
      dest: connect_stage_frame)

lemma connect_open_unlink:
  "connect_open (env\<lparr>unlink_fails := u\<rparr>) filePath staged s =
     connect_open env filePath staged s"
  by (simp add: connect_open_def)

lemma connect_stage_unlink:
  "connect_stage (env\<lparr>unlink_fails := u\<rparr>) filePath data s =
     connect_stage env filePath data s"
  by (simp add: connect_stage_def connect_open_unlink tempPath_of_def Let_def
      split: option.split write_outcome.split)

lemma connect_try_unlink:
  "connect_try (env\<lparr>unlink_fails := u\<rparr>) filePath s = connect_try env filePath s"
  by (simp add: connect_try_def connect_stage_unlink tempPath_of_def Let_def
      split: option.split)

lemma connect_catch_fields:
  "memories (connect_catch e s) = JArr []"
  "indexPath (connect_catch e s) = None"
  "faissIndex (connect_catch e s) = None"
  "faissDataPath (connect_catch e s) = None"
  "faissViewConnected (connect_catch e s) = False"
  "fired (connect_catch e s) = Suc (fired s)"
  "errorMessages (connect_catch e s) =
     errorMessages s @ [(''Failed to connect to FAISS index: '', e)]"
  "files (connect_catch e s) = files s"
  by (simp_all add: connect_catch_def console_error_def showErrorMessage_def fire_def Let_def)

lemma connect_finally_frame:
  "memories (connect_finally env tp s) = memories s"
  "indexPath (connect_finally env tp s) = indexPath s"
  "faissIndex (connect_finally env tp s) = faissIndex s"
  "faissDataPath (connect_finally env tp s) = faissDataPath s"
  "faissViewConnected (connect_finally env tp s) = faissViewConnected s"
  "fired (connect_finally env tp s) = fired s"
  "errorMessages (connect_finally env tp s) = errorMessages s"
  by (simp_all add: connect_finally_def console_warn_def console_log_def split: option.splits)

lemma connect_finally_files:
  "p \<noteq> tempPath_of env \<Longrightarrow>
     files (connect_finally env (Some (tempPath_of env)) s) p = files s p"
  "files (connect_finally env None s) = files s"
  "files (connect_finally env (Some (tempPath_of env)) s) (tempPath_of env) = None \<or>
     unlink_fails env (tempPath_of env) \<and>
     last (console (connect_finally env (Some (tempPath_of env)) s)) =
       ConsoleWarn ''Failed to clean up temporary file:'' UnlinkFailure"
  by (simp_all add: connect_finally_def console_warn_def console_log_def tempPath_of_nonempty)

lemma connectToIndex_cases:
  assumes "connect_try env filePath s = (thrown, tp, s1)"
  shows "thrown = None \<Longrightarrow>
           connectToIndex env filePath s = (Inr (), connect_finally env tp s1)"
    and "thrown = Some e \<Longrightarrow>
           connectToIndex env filePath s =
             (Inl e, connect_finally env tp (connect_catch e s1))"
  using assms by (simp_all add: connectToIndex_def)

text \<open>What a call whose \<open>try\<close> block throws leaves behind.\<close>

lemma connectToIndex_throws:
  assumes "fst (connect_try env filePath s) = Some e"
  shows "fst (connectToIndex env filePath s) = Inl e"
    and "memories (snd (connectToIndex env filePath s)) = JArr []"
    and "indexPath (snd (connectToIndex env filePath s)) = None"
    and "faissIndex (snd (connectToIndex env filePath s)) = None"
    and "faissDataPath (snd (connectToIndex env filePath s)) = None"
    and "faissViewConnected (snd (connectToIndex env filePath s)) = False"
    and "fired (snd (connectToIndex env filePath s)) = Suc (fired s)"
    and "errorMessages (snd (connectToIndex env filePath s)) =
           errorMessages s @ [(''Failed to connect to FAISS index: '', e)]"
proof -
  obtain tp s1 where body: "connect_try env filePath s = (Some e, tp, s1)"
    using assms by (cases "connect_try env filePath s") auto
  have run: "connectToIndex env filePath s =
               (Inl e, connect_finally env tp (connect_catch e s1))"
    using connectToIndex_cases(2) [OF body] by simp
  show "fst (connectToIndex env filePath s) = Inl e"
    and "memories (snd (connectToIndex env filePath s)) = JArr []"
    and "indexPath (snd (connectToIndex env filePath s)) = None"
    and "faissIndex (snd (connectToIndex env filePath s)) = None"
    and "faissDataPath (snd (connectToIndex env filePath s)) = None"
    and "faissViewConnected (snd (connectToIndex env filePath s)) = False"
    by (simp_all add: run connect_finally_frame connect_catch_fields)
  show "fired (snd (connectToIndex env filePath s)) = Suc (fired s)"
    using connect_try_frame(3) [OF body]
    by (simp add: run connect_finally_frame connect_catch_fields)
  show "errorMessages (snd (connectToIndex env filePath s)) =
          errorMessages s @ [(''Failed to connect to FAISS index: '', e)]"
    using connect_try_frame(2) [OF body]
    by (simp add: run connect_finally_frame connect_catch_fields)
qed

text \<open>A document that answers \<open>undefined\<close> for one property answers every property.\<close>

lemma js_get_defined:
  "js_get data k = Some v \<Longrightarrow> \<exists>w. js_get data k' = Some w"
  by (cases data) simp_all

section \<open>Properties\<close>

subsection \<open>Searching\<close>

text \<open>
  C7. In every state without an engine handle, \<open>searchVectors\<close> resolves to \<open>null\<close>
  and raises nothing: the state, with its console and its error popups, is
  unchanged.
\<close>

theorem searchVectors_not_connected:
  "faissIndex s = None \<Longrightarrow> searchVectors env vector s = (None, s)"
  by (simp add: searchVectors_def)

theorem searchVectors_not_connected_witness:
  "faissIndex initial_state = None \<and>
   searchVectors demo_env [1, 0] initial_state = (None, initial_state)"
  using searchVectors_not_connected [of initial_state demo_env "[1, 0]"]
  by (simp add: initial_state_def)

text \<open>
  C4. In a connected state whose memories are the array \<open>rs\<close>, when the engine
  answers positions and distances of equal length and every position is a valid
  index into \<open>rs\<close>, the search succeeds without touching the state, and the
  composed result pairs, for every \<open>i\<close> in the engine's order, the record
  \<open>rs[ps[i]]\<close> with the distance \<open>ds[i]\<close>.
\<close>

theorem searchVectors_composes_by_position:
  assumes "faissIndex s = Some h"
    and "memories s = JArr rs"
    and "index_search env h vector 5 = Inr res"
    and "length (indices res) = length (distances res)"
    and "\<forall>p \<in> set (indices res). 0 \<le> p \<and> p < int (length rs)"
  shows "\<exists>reply. searchVectors env vector s = (Some reply, s) \<and>
           searchResults reply =
             map (\<lambda>i. (rs ! nat (indices res ! i), Some (distances res ! i)))
               [0 ..< length (indices res)]"
proof -
  define reply where
    "reply = \<lparr>reply_indices = indices res, reply_distances = distances res,
              reply_memories = map (\<lambda>p. rs ! nat p) (indices res)\<rparr>"
  have "lookup_memories (memories s) (indices res) =
          Some (map (\<lambda>p. rs ! nat p) (indices res))"
    using assms(2,5) by (simp add: lookup_memories_JArr)
  then have run: "searchVectors env vector s = (Some reply, s)"
    using assms(1,3) by (simp add: searchVectors_def reply_def)
  have "searchResults reply =
          zip (map (\<lambda>p. rs ! nat p) (indices res)) (map Some (distances res))"
    using assms(4) by (simp add: searchResults_zip reply_def)
  also have "\<dots> = map (\<lambda>i. (rs ! nat (indices res ! i), Some (distances res ! i)))
                     [0 ..< length (indices res)]"
    using assms(4) by (intro nth_equalityI) simp_all
  finally show ?thesis using run by blast
qed

theorem searchVectors_composes_by_position_witness:
  "\<exists>reply. searchVectors demo_env [1, 0] connected_state = (Some reply, connected_state) \<and>
     searchResults reply =
       [(JObj [(''id'', JStr ''c'')], Some 0), (JObj [(''id'', JStr ''a'')], Some 1),
        (JObj [(''id'', JStr ''b'')], Some 2), (JObj [(''id'', JStr ''f'')], Some 3),
        (JObj [(''id'', JStr ''e'')], Some 4)]"
  using searchVectors_composes_by_position
    [of connected_state 1 demo_records demo_env "[1, 0]"
      "\<lparr>indices = [2, 0, 1, 5, 4], distances = [0, 1, 2, 3, 4]\<rparr>"]
  by (simp add: connected_state_fields demo_env_simps demo_search_def demo_records_def)

text \<open>
  C5, as stated, fails: \<open>this.memories[idx]\<close> is not checked against the bounds.
  After connecting to a bundle of two records whose index has six rows, a search
  resolves to a reply in which the three positions beyond the records carry
  \<open>undefined\<close>, and no error is reported.
\<close>

theorem searchVectors_out_of_bounds_counterexample:
  "fst (connectToIndex demo_env ''/data/short.json'' initial_state) = Inr () \<and>
   map_option reply_indices (fst (searchVectors demo_env [1, 0] short_state)) =
     Some [2, 0, 1, 5, 4] \<and>
   map_option reply_memories (fst (searchVectors demo_env [1, 0] short_state)) =
     Some [JUndefined, JObj [(''id'', JStr ''a'')], JObj [(''id'', JStr ''b'')],
           JUndefined, JUndefined] \<and>
   errorMessages (snd (searchVectors demo_env [1, 0] short_state)) = []"
  by (simp add: searchVectors_def short_state_fields demo_env_simps demo_search_def
      demo_records_def)
    (simp add: demo_eval)

text \<open>
  C5, amended. When the memories are an array and the engine answers a position
  outside its bounds, the search does not fail: it resolves to a reply with one
  memory per position, the state unchanged (so nothing is reported), and the
  memory for that position is \<open>undefined\<close>. The composed result has one pair per
  position, and the pair for that position is \<open>undefined\<close> with \<open>distances[i]\<close>:
  the engine's distance for it when the engine answered as many distances as
  positions.
\<close>

theorem searchVectors_out_of_bounds_undefined:
  assumes "faissIndex s = Some h"
    and "memories s = JArr rs"
    and "index_search env h vector 5 = Inr res"
    and "i < length (indices res)"
    and "indices res ! i < 0 \<or> int (length rs) \<le> indices res ! i"
  shows "\<exists>reply. searchVectors env vector s = (Some reply, s) \<and>
           length (reply_memories reply) = length (indices res) \<and>
           reply_indices reply ! i = indices res ! i \<and>
           reply_memories reply ! i = JUndefined \<and>
           length (searchResults reply) = length (indices res) \<and>
           searchResults reply ! i = (JUndefined, nth_opt (distances res) i) \<and>
           (length (distances res) = length (indices res) \<longrightarrow>
              searchResults reply ! i = (JUndefined, Some (distances res ! i)))"
proof -
  define ms where
    "ms = map (\<lambda>p. if 0 \<le> p \<and> p < int (length rs) then rs ! nat p else JUndefined)
            (indices res)"
  define reply where
    "reply = \<lparr>reply_indices = indices res, reply_distances = distances res,
              reply_memories = ms\<rparr>"
  have run: "searchVectors env vector s = (Some reply, s)"
    using assms(1-3) by (simp add: searchVectors_def lookup_memories_JArr reply_def ms_def)
  have len: "length (reply_memories reply) = length (indices res)"
    by (simp add: reply_def ms_def)
  have absent: "reply_memories reply ! i = JUndefined"
    using assms(4,5) by (auto simp: reply_def ms_def)
  have pair: "searchResults reply ! i = (JUndefined, nth_opt (distances res) i)"
    using searchResults_nth [of i reply] assms(4) len absent by (simp add: reply_def)
  have "length (searchResults reply) = length (indices res)"
    using len by (simp add: searchResults_def)
  moreover have "reply_indices reply ! i = indices res ! i"
    by (simp add: reply_def)
  moreover have "length (distances res) = length (indices res) \<longrightarrow>
      searchResults reply ! i = (JUndefined, Some (distances res ! i))"
    using pair assms(4) by (simp add: nth_opt_def)
  ultimately show ?thesis
    using run len absent pair by blast
qed

theorem searchVectors_out_of_bounds_undefined_witness:
  "\<exists>reply. searchVectors demo_env [1, 0] short_state = (Some reply, short_state) \<and>
     length (reply_memories reply) = 5 \<and>
     reply_indices reply ! 0 = 2 \<and>
     reply_memories reply ! 0 = JUndefined \<and>
     length (searchResults reply) = 5 \<and>
     searchResults reply ! 0 = (JUndefined, Some 0)"
proof -
  have "index_search demo_env 1 [1, 0] 5 =
          Inr \<lparr>indices = [2, 0, 1, 5, 4], distances = [0, 1, 2, 3, 4]\<rparr>"
    by (simp add: demo_env_simps demo_search_def)
  from searchVectors_out_of_bounds_undefined
    [OF short_state_fields(1) short_state_fields(2) this, of 0]
  show ?thesis by (simp add: demo_records_def eval_nat_numeral) blast
qed

text \<open>
  C6, as stated, fails: \<open>searchVectors\<close> takes no bound \<open>k\<close> and always asks the
  engine for 5 neighbours. For a caller who wants at most 2 results, the engine
  asked for 2 would answer 2 positions, but the search returns 5 pairs.
\<close>

theorem searchVectors_bound_counterexample:
  "index_search demo_env 1 [1, 0] 2 = Inr \<lparr>indices = [2, 0], distances = [0, 1]\<rparr> \<and>
   map_option reply_indices (fst (searchVectors demo_env [1, 0] connected_state)) =
     Some [2, 0, 1, 5, 4] \<and>
   map_option (length \<circ> searchResults) (fst (searchVectors demo_env [1, 0] connected_state)) =
     Some 5 \<and>
   \<not> (5::nat) \<le> 2"
  by (simp add: searchVectors_def connected_state_fields demo_env_simps demo_search_def
      demo_records_def searchResults_def)

text \<open>
  C6, amended. In every state the search takes no bound from the caller and asks
  the engine for exactly 5 neighbours: its outcome is the same under any two
  engines that answer 5-neighbour requests alike. In every connected state, when
  the engine answers and the memories are neither \<open>undefined\<close> nor \<open>null\<close> (or the
  engine answers no position), the search leaves the state alone and returns the
  engine's positions and distances with one memory per position and one pair per
  position, in the engine's order: at most 5 pairs when the engine answers at most
  5 positions, and paired with the engine's distances, in the engine's order, when
  it answers as many distances as positions. When the memories are \<open>undefined\<close> or
  \<open>null\<close> and the engine answers a position, the search resolves to \<open>null\<close> and
  reports a \<open>TypeError\<close>.
\<close>

theorem searchVectors_asks_for_five:
  "((\<forall>h v. index_search env' h v 5 = index_search env h v 5) \<longrightarrow>
      searchVectors env' vector s = searchVectors env vector s) \<and>
   (faissIndex s = Some h \<and> index_search env h vector 5 = Inr res \<and>
    (memories s \<noteq> JUndefined \<and> memories s \<noteq> JNull \<or> indices res = []) \<longrightarrow>
      (\<exists>reply. searchVectors env vector s = (Some reply, s) \<and>
         reply_indices reply = indices res \<and>
         reply_distances reply = distances res \<and>
         length (reply_memories reply) = length (indices res) \<and>
         length (searchResults reply) = length (indices res) \<and>
         (length (indices res) \<le> 5 \<longrightarrow> length (searchResults reply) \<le> 5) \<and>
         (length (distances res) = length (indices res) \<longrightarrow>
            map snd (searchResults reply) = map Some (distances res)) \<and>
         (sorted (distances res) \<longrightarrow> sorted (reply_distances reply)))) \<and>
   (faissIndex s = Some h \<and> index_search env h vector 5 = Inr res \<and>
    (memories s = JUndefined \<or> memories s = JNull) \<and> indices res \<noteq> [] \<longrightarrow>
      searchVectors env vector s = (None, search_failed TypeError s))"
proof (intro conjI impI)
  assume "\<forall>h v. index_search env' h v 5 = index_search env h v 5"
  then show "searchVectors env' vector s = searchVectors env vector s"
    by (cases "faissIndex s") (simp_all add: searchVectors_def)
next
  assume a: "faissIndex s = Some h \<and> index_search env h vector 5 = Inr res \<and>
    (memories s \<noteq> JUndefined \<and> memories s \<noteq> JNull \<or> indices res = [])"
  have "\<exists>ms. lookup_memories (memories s) (indices res) = Some ms \<and>
          length ms = length (indices res)"
  proof (cases "indices res = []")
    case True
    then show ?thesis by simp
  next
    case False
    with a show ?thesis by (simp add: lookup_memories_defined)
  qed
  then obtain ms where ms: "lookup_memories (memories s) (indices res) = Some ms"
    and len: "length ms = length (indices res)"
    by blast
  define reply where
    "reply = \<lparr>reply_indices = indices res, reply_distances = distances res,
              reply_memories = ms\<rparr>"
  have run: "searchVectors env vector s = (Some reply, s)"
    using a ms by (simp add: searchVectors_def reply_def)
  have n: "length (searchResults reply) = length (indices res)"
    using len by (simp add: searchResults_def reply_def)
  have "length (distances res) = length (indices res) \<longrightarrow>
          map snd (searchResults reply) = map Some (distances res)"
  proof
    assume "length (distances res) = length (indices res)"
    then have "searchResults reply = zip ms (map Some (distances res))"
      using len searchResults_zip [of reply] by (simp add: reply_def)
    then show "map snd (searchResults reply) = map Some (distances res)"
      using len \<open>length (distances res) = length (indices res)\<close> by simp
  qed
  then show "\<exists>reply. searchVectors env vector s = (Some reply, s) \<and>
         reply_indices reply = indices res \<and>
         reply_distances reply = distances res \<and>
         length (reply_memories reply) = length (indices res) \<and>
         length (searchResults reply) = length (indices res) \<and>
         (length (indices res) \<le> 5 \<longrightarrow> length (searchResults reply) \<le> 5) \<and>
         (length (distances res) = length (indices res) \<longrightarrow>
            map snd (searchResults reply) = map Some (distances res)) \<and>
         (sorted (distances res) \<longrightarrow> sorted (reply_distances reply))"
    using run n len by (intro exI [of _ reply]) (simp add: reply_def)
next
  assume "faissIndex s = Some h \<and> index_search env h vector 5 = Inr res \<and>
    (memories s = JUndefined \<or> memories s = JNull) \<and> indices res \<noteq> []"
  then show "searchVectors env vector s = (None, search_failed TypeError s)"
    by (simp add: searchVectors_def lookup_memories_absent)
qed

theorem searchVectors_asks_for_five_witness:
  "searchVectors (demo_env\<lparr>index_search := \<lambda>h v k. demo_search h v (min k 5)\<rparr>) [1, 0]
       connected_state =
     searchVectors demo_env [1, 0] connected_state \<and>
   (\<exists>reply. searchVectors demo_env [1, 0] connected_state = (Some reply, connected_state) \<and>
      reply_indices reply = [2, 0, 1, 5, 4] \<and>
      reply_distances reply = [0, 1, 2, 3, 4] \<and>
      length (searchResults reply) = 5 \<and>
      map snd (searchResults reply) = [Some 0, Some 1, Some 2, Some 3, Some 4]) \<and>
   searchVectors demo_env [1, 0] nomemories_state =
     (None, search_failed TypeError nomemories_state)"
proof -
  have eng: "index_search demo_env 1 [1, 0] 5 =
          Inr \<lparr>indices = [2, 0, 1, 5, 4], distances = [0, 1, 2, 3, 4]\<rparr>"
    by (simp add: demo_env_simps demo_search_def)
  have same: "\<forall>h v. index_search
                 (demo_env\<lparr>index_search := \<lambda>h v k. demo_search h v (min k 5)\<rparr>) h v 5 =
               index_search demo_env h v 5"
    by (simp add: demo_env_simps)
  from searchVectors_asks_for_five
    [of "demo_env\<lparr>index_search := \<lambda>h v k. demo_search h v (min k 5)\<rparr>" demo_env "[1, 0]"
      connected_state 1 "\<lparr>indices = [2, 0, 1, 5, 4], distances = [0, 1, 2, 3, 4]\<rparr>"]
    searchVectors_asks_for_five
    [of demo_env demo_env "[1, 0]" nomemories_state 1
      "\<lparr>indices = [2, 0, 1, 5, 4], distances = [0, 1, 2, 3, 4]\<rparr>"]
    eng same connected_state_fields(1,2) nomemories_state_fields
  show ?thesis
    by (simp add: eval_nat_numeral) (elim conjE exE, intro exI conjI, assumption+)
qed

text \<open>
  C8. In a connected state, when the engine rejects the search with \<open>e\<close>, the error
  is caught: the search resolves to \<open>null\<close>, \<open>e\<close> is shown in an error popup and
  logged, and the engine handle, the memories, the index path, the persisted path,
  the context key, the change event and the files are what they were.
\<close>

theorem searchVectors_engine_error:
  assumes "faissIndex s = Some h"
    and "index_search env h vector 5 = Inl e"
  shows "fst (searchVectors env vector s) = None \<and>
         errorMessages (snd (searchVectors env vector s)) =
           errorMessages s @ [(''Search failed: '', e)] \<and>
         console (snd (searchVectors env vector s)) =
           console s @ [ConsoleError ''Search failed:'' e] \<and>
         faissIndex (snd (searchVectors env vector s)) = faissIndex s \<and>
         memories (snd (searchVectors env vector s)) = memories s \<and>
         indexPath (snd (searchVectors env vector s)) = indexPath s \<and>
         faissDataPath (snd (searchVectors env vector s)) = faissDataPath s \<and>
         faissViewConnected (snd (searchVectors env vector s)) = faissViewConnected s \<and>
         fired (snd (searchVectors env vector s)) = fired s \<and>
         files (snd (searchVectors env vector s)) = files s"
  using assms
  by (simp add: searchVectors_def search_failed_def showErrorMessage_def console_error_def)

theorem searchVectors_engine_error_witness:
  "fst (searchVectors demo_env [1, 0] (connected_state\<lparr>faissIndex := Some 2\<rparr>)) = None \<and>
   errorMessages (snd (searchVectors demo_env [1, 0] (connected_state\<lparr>faissIndex := Some 2\<rparr>))) =
     [(''Search failed: '', EngineError ''search failed'')] \<and>
   faissIndex (snd (searchVectors demo_env [1, 0] (connected_state\<lparr>faissIndex := Some 2\<rparr>))) =
     Some 2 \<and>
   memories (snd (searchVectors demo_env [1, 0] (connected_state\<lparr>faissIndex := Some 2\<rparr>))) =
     JArr demo_records \<and>
   faissDataPath (snd (searchVectors demo_env [1, 0] (connected_state\<lparr>faissIndex := Some 2\<rparr>))) =
     Some ''/data/bundle.json''"
  using searchVectors_engine_error
    [of "connected_state\<lparr>faissIndex := Some 2\<rparr>" 2 demo_env "[1, 0]"
      "EngineError ''search failed''"]
  by (simp add: connected_state_def initial_state_def demo_env_simps demo_search_def)

subsection \<open>Connecting\<close>

text \<open>
  C3. Whenever a step of \<open>connectToIndex\<close> throws an error \<open>e\<close>, the call rejects
  with that same \<open>e\<close>, and afterwards the memories are the empty array, the index
  path and the engine handle are \<open>null\<close>, the persisted \<open>faissDataPath\<close> is
  cleared, the context key is false, the change event has fired once, and \<open>e\<close> has
  been shown in an error popup.
\<close>

theorem connect_failure_clears_state:
  assumes "fst (connect_try env filePath s) = Some e"
  shows "fst (connectToIndex env filePath s) = Inl e \<and>
         memories (snd (connectToIndex env filePath s)) = JArr [] \<and>
         indexPath (snd (connectToIndex env filePath s)) = None \<and>
         faissIndex (snd (connectToIndex env filePath s)) = None \<and>
         faissDataPath (snd (connectToIndex env filePath s)) = None \<and>
         faissViewConnected (snd (connectToIndex env filePath s)) = False \<and>
         fired (snd (connectToIndex env filePath s)) = Suc (fired s) \<and>
         errorMessages (snd (connectToIndex env filePath s)) =
           errorMessages s @ [(''Failed to connect to FAISS index: '', e)]"
  using connectToIndex_throws [OF assms] by simp

theorem connect_failure_clears_state_witness:
  "fst (connect_try demo_env ''/data/bad.json'' connected_state) =
     Some (EngineError ''read failed'') \<and>
   fst (connectToIndex demo_env ''/data/bad.json'' connected_state) =
     Inl (EngineError ''read failed'') \<and>
   memories (snd (connectToIndex demo_env ''/data/bad.json'' connected_state)) = JArr [] \<and>
   indexPath (snd (connectToIndex demo_env ''/data/bad.json'' connected_state)) = None \<and>
   faissIndex (snd (connectToIndex demo_env ''/data/bad.json'' connected_state)) = None \<and>
   faissDataPath (snd (connectToIndex demo_env ''/data/bad.json'' connected_state)) = None \<and>
   fired (snd (connectToIndex demo_env ''/data/bad.json'' connected_state)) = 2"
proof -
  have thrown: "fst (connect_try demo_env ''/data/bad.json'' connected_state) =
                  Some (EngineError ''read failed'')"
    by (simp add: connected_state_def demo_eval)
  from connect_failure_clears_state [OF thrown] thrown show ?thesis
    by (simp add: connected_state_fields)
qed

text \<open>
  C2. For every bundle file that is read and parsed to a document which answers
  \<open>undefined\<close> for \<open>index\<close> (any parsed value but \<open>null\<close>, without that member),
  \<open>connectToIndex\<close> rejects with the error \<open>No index data found in the JSON file\<close>,
  and afterwards there is no engine handle, the context key is false, and the
  memories, the index path and the persisted path are cleared.
\<close>

theorem connect_missing_index:
  assumes "files s filePath = Some text"
    and "\<not> read_fails env filePath"
    and "json_parse env text = Some data"
    and "js_get data ''index'' = Some JUndefined"
  shows "fst (connectToIndex env filePath s) = Inl NoIndexData \<and>
         faissIndex (snd (connectToIndex env filePath s)) = None \<and>
         faissViewConnected (snd (connectToIndex env filePath s)) = False \<and>
         memories (snd (connectToIndex env filePath s)) = JArr [] \<and>
         indexPath (snd (connectToIndex env filePath s)) = None \<and>
         faissDataPath (snd (connectToIndex env filePath s)) = None"
proof -
  obtain ms where "js_get data ''memories'' = Some ms"
    using js_get_defined [OF assms(4)] by blast
  then have "fst (connect_try env filePath s) = Some NoIndexData"
    using assms by (simp add: connect_try_def connect_stage_def console_log_def Let_def)
  from connectToIndex_throws [OF this] show ?thesis by simp
qed

theorem connect_missing_index_witness:
  "fst (connectToIndex demo_env ''/data/noindex.json'' connected_state) = Inl NoIndexData \<and>
   faissIndex (snd (connectToIndex demo_env ''/data/noindex.json'' connected_state)) = None \<and>
   faissViewConnected (snd (connectToIndex demo_env ''/data/noindex.json'' connected_state)) =
     False \<and>
   memories (snd (connectToIndex demo_env ''/data/noindex.json'' connected_state)) = JArr []"
  using connect_missing_index
    [of connected_state "''/data/noindex.json''" "''no index''" demo_env
      "JObj [(''memories'', JArr demo_records)]"]
  by (simp add: connected_state_def initial_state_def demo_files_def demo_env_simps
      demo_parse_def)

text \<open>
  C10. For every bundle file that is read and parsed to a document without a
  \<open>memories\<close> member and with a truthy \<open>index\<close>, once the payload decodes to a
  non-empty buffer that is written and that the engine opens, \<open>connectToIndex\<close>
  resolves, the state is connected, and \<open>getAllMemories\<close> answers \<open>undefined\<close>.
\<close>

theorem connect_without_memories:
  assumes "files s filePath = Some text"
    and "\<not> read_fails env filePath"
    and "json_parse env text = Some data"
    and "js_get data ''memories'' = Some JUndefined"
    and "js_get data ''index'' = Some ix"
    and "truthy ix"
    and "buffer_from env ix = Some indexBuffer"
    and "indexBuffer \<noteq> []"
    and "write_file env (tempPath_of env) indexBuffer = Written"
    and "index_read env indexBuffer = Inr h"
  shows "fst (connectToIndex env filePath s) = Inr () \<and>
         faissIndex (snd (connectToIndex env filePath s)) = Some h \<and>
         faissViewConnected (snd (connectToIndex env filePath s)) = True \<and>
         faissDataPath (snd (connectToIndex env filePath s)) = Some filePath \<and>
         getAllMemories (snd (connectToIndex env filePath s)) = JUndefined"
proof -
  obtain thrown tp s1 where body: "connect_try env filePath s = (thrown, tp, s1)"
    by (cases "connect_try env filePath s") auto
  have "thrown = None \<and> faissIndex s1 = Some h \<and> faissViewConnected s1 = True \<and>
        faissDataPath s1 = Some filePath \<and> memories s1 = JUndefined"
    using body assms
    by (auto simp: connect_try_def connect_stage_def connect_open_def console_log_def
        fire_def Let_def)
  then show ?thesis
    using connectToIndex_cases(1) [OF body]
    by (simp add: connect_finally_frame getAllMemories_def)
qed

theorem connect_without_memories_witness:
  "fst (connectToIndex demo_env ''/data/nomemories.json'' initial_state) = Inr () \<and>
   faissIndex (snd (connectToIndex demo_env ''/data/nomemories.json'' initial_state)) =
     Some 1 \<and>
   getAllMemories (snd (connectToIndex demo_env ''/data/nomemories.json'' initial_state)) =
     JUndefined"
  using connect_without_memories
    [of initial_state "''/data/nomemories.json''" "''no memories''" demo_env
      "JObj [(''index'', JStr ''SW5kZXg='')]" "JStr ''SW5kZXg=''" "''Index''" 1]
  by (simp add: initial_state_def demo_files_def demo_env_simps demo_parse_def
      demo_buffer_from_def)

text \<open>
  C1. For every call of \<open>connectToIndex\<close>, resolved or rejected: no file other than
  the temporary one is touched; if the call never assigned \<open>tempPath\<close>, the files are
  what they were; if it did, then on return the temporary file is gone, unless
  \<open>unlinkSync\<close> threw, which is logged as a warning. The outcome of the call is that
  of its \<open>try\<close> block, and neither it nor any part of the state but the files and the
  console depends on whether \<open>unlinkSync\<close> throws.
\<close>

theorem connect_releases_staging_file:
  "(fst (snd (connect_try env filePath s)) = None \<longrightarrow>
      files (snd (connectToIndex env filePath s)) = files s) \<and>
   (fst (snd (connect_try env filePath s)) \<noteq> None \<longrightarrow>
      files (snd (connectToIndex env filePath s)) (tempPath_of env) = None \<or>
      unlink_fails env (tempPath_of env) \<and>
      last (console (snd (connectToIndex env filePath s))) =
        ConsoleWarn ''Failed to clean up temporary file:'' UnlinkFailure) \<and>
   (\<forall>p. p \<noteq> tempPath_of env \<longrightarrow>
      files (snd (connectToIndex env filePath s)) p = files s p) \<and>
   fst (connectToIndex env filePath s) =
     (case fst (connect_try env filePath s) of None \<Rightarrow> Inr () | Some e \<Rightarrow> Inl e) \<and>
   fst (connectToIndex (env\<lparr>unlink_fails := u\<rparr>) filePath s) =
     fst (connectToIndex env filePath s) \<and>
   faissIndex (snd (connectToIndex (env\<lparr>unlink_fails := u\<rparr>) filePath s)) =
     faissIndex (snd (connectToIndex env filePath s)) \<and>
   indexPath (snd (connectToIndex (env\<lparr>unlink_fails := u\<rparr>) filePath s)) =
     indexPath (snd (connectToIndex env filePath s)) \<and>
   memories (snd (connectToIndex (env\<lparr>unlink_fails := u\<rparr>) filePath s)) =
     memories (snd (connectToIndex env filePath s)) \<and>
   faissDataPath (snd (connectToIndex (env\<lparr>unlink_fails := u\<rparr>) filePath s)) =
     faissDataPath (snd (connectToIndex env filePath s)) \<and>
   faissViewConnected (snd (connectToIndex (env\<lparr>unlink_fails := u\<rparr>) filePath s)) =
     faissViewConnected (snd (connectToIndex env filePath s)) \<and>
   fired (snd (connectToIndex (env\<lparr>unlink_fails := u\<rparr>) filePath s)) =
     fired (snd (connectToIndex env filePath s)) \<and>
   errorMessages (snd (connectToIndex (env\<lparr>unlink_fails := u\<rparr>) filePath s)) =
     errorMessages (snd (connectToIndex env filePath s))"
proof -
  obtain thrown tp s1 where body: "connect_try env filePath s = (thrown, tp, s1)"
    by (cases "connect_try env filePath s") auto
  define s2 where "s2 = (case thrown of None \<Rightarrow> s1 | Some e \<Rightarrow> connect_catch e s1)"
  have files2: "files s2 = files s1"
    by (simp add: s2_def connect_catch_fields split: option.splits)
  have run: "connectToIndex env filePath s =
               ((case thrown of None \<Rightarrow> Inr () | Some e \<Rightarrow> Inl e), connect_finally env tp s2)"
    by (simp add: connectToIndex_def body s2_def split: option.splits)
  have run': "connectToIndex (env\<lparr>unlink_fails := u\<rparr>) filePath s =
               ((case thrown of None \<Rightarrow> Inr () | Some e \<Rightarrow> Inl e),
                connect_finally (env\<lparr>unlink_fails := u\<rparr>) tp s2)"
    by (simp add: connectToIndex_def connect_try_unlink body s2_def split: option.splits)
  have tp: "tp = None \<or> tp = Some (tempPath_of env)"
    by (rule connect_try_frame(5) [OF body])
  have untouched: "tp = None \<longrightarrow> files (connect_finally env tp s2) = files s"
    using connect_try_frame(4) [OF body] files2 by (simp add: connect_finally_files)
  have released: "tp \<noteq> None \<longrightarrow>
      files (connect_finally env tp s2) (tempPath_of env) = None \<or>
      unlink_fails env (tempPath_of env) \<and>
      last (console (connect_finally env tp s2)) =
        ConsoleWarn ''Failed to clean up temporary file:'' UnlinkFailure"
    using tp connect_finally_files(3) [of env s2] by auto
  have others: "\<forall>p. p \<noteq> tempPath_of env \<longrightarrow> files (connect_finally env tp s2) p = files s p"
  proof (intro allI impI)
    fix p
    assume p: "p \<noteq> tempPath_of env"
    have "files (connect_finally env tp s2) p = files s2 p"
      using tp p by (auto simp: connect_finally_files)
    also have "\<dots> = files s p"
      using connect_try_frame(1) [OF body p] files2 by simp
    finally show "files (connect_finally env tp s2) p = files s p" .
  qed
  show ?thesis
    using untouched released others
    by (simp add: run run' body connect_finally_frame)
qed

theorem connect_releases_staging_file_witness:
  "fst (snd (connect_try demo_env ''/data/bad.json'' initial_state)) \<noteq> None \<and>
   fst (connectToIndex demo_env ''/data/bad.json'' initial_state) =
     Inl (EngineError ''read failed'') \<and>
   files (snd (connectToIndex demo_env ''/data/bad.json'' initial_state))
     (tempPath_of demo_env) = None \<and>
   fst (connectToIndex (demo_env\<lparr>unlink_fails := \<lambda>p. True\<rparr>) ''/data/bad.json'' initial_state) =
     Inl (EngineError ''read failed'') \<and>
   faissIndex
     (snd (connectToIndex (demo_env\<lparr>unlink_fails := \<lambda>p. True\<rparr>) ''/data/bad.json''
        initial_state)) = None"
proof -
  have body: "fst (connect_try demo_env ''/data/bad.json'' initial_state) =
                Some (EngineError ''read failed'')"
    "fst (snd (connect_try demo_env ''/data/bad.json'' initial_state)) =
       Some (tempPath_of demo_env)"
    by (simp_all add: demo_eval)
  have "faissIndex (snd (connectToIndex demo_env ''/data/bad.json'' initial_state)) = None"
    using connectToIndex_throws(4) [OF body(1)] .
  with connect_releases_staging_file
    [of demo_env "''/data/bad.json''" initial_state "\<lambda>p. True"] body
  show ?thesis by (simp add: demo_env_simps)
qed

subsection \<open>Disconnecting\<close>

text \<open>
  C9, as stated, fails for the Error state: \<open>disconnect\<close> does nothing unless an
  engine handle is present. After a connect to a missing path has failed, there is
  no handle, and \<open>disconnect\<close> does not fire the change event.
\<close>

theorem disconnect_error_state_counterexample:
  "fst (connectToIndex demo_env ''/data/missing.json'' initial_state) =
     Inl (FileNotFound ''/data/missing.json'') \<and>
   faissIndex error_state = None \<and>
   fired error_state = 1 \<and>
   fired (disconnect demo_env error_state) = 1"
  by (simp add: disconnect_def error_state_fields) (simp add: demo_eval)

text \<open>
  C9, amended. In every state with an engine handle, \<open>disconnect\<close> drops the handle,
  clears the memories, the index path and the persisted path, sets the context key
  to false and fires the change event once, leaving the files and the error popups
  alone. In every state without an engine handle it changes nothing and notifies
  nobody.
\<close>

theorem disconnect_connected:
  "(faissIndex s = Some h \<longrightarrow>
      faissIndex (disconnect env s) = None \<and>
      memories (disconnect env s) = JArr [] \<and>
      indexPath (disconnect env s) = None \<and>
      faissDataPath (disconnect env s) = None \<and>
      faissViewConnected (disconnect env s) = False \<and>
      fired (disconnect env s) = Suc (fired s) \<and>
      files (disconnect env s) = files s \<and>
      errorMessages (disconnect env s) = errorMessages s) \<and>
   (faissIndex s = None \<longrightarrow> disconnect env s = s)"
  by (simp add: disconnect_def refresh_def fire_def Let_def)

theorem disconnect_connected_witness:
  "faissIndex connected_state = Some 1 \<and>
   faissIndex (disconnect demo_env connected_state) = None \<and>
   memories (disconnect demo_env connected_state) = JArr [] \<and>
   indexPath (disconnect demo_env connected_state) = None \<and>
   faissDataPath (disconnect demo_env connected_state) = None \<and>
   fired (disconnect demo_env connected_state) = 2 \<and>
   faissIndex initial_state = None \<and>
   disconnect demo_env initial_state = initial_state"
  using disconnect_connected [of connected_state 1 demo_env]
    disconnect_connected [of initial_state 1 demo_env]
  by (simp add: connected_state_fields) (simp add: initial_state_def)

end
